theory Spec2Isabelle
  imports Complex_Main
begin

section \<open>Python values handled by the filters\<close>

text \<open>
  A Python \<^verbatim>\<open>float\<close> is read by its value: a finite float is a rational number, and
  there are the two infinities, the negative zero and the NaN. Comparisons and truthiness
  depend on the value only, so what is proved for every rational holds for every float.
\<close>

datatype pyfloat = Finite rat | NegZero | PosInf | NegInf | NaN

text \<open>A \<^verbatim>\<open>datetime.date\<close> (year, month, day) and a \<^verbatim>\<open>datetime.datetime\<close>.\<close>

datatype date = Date nat nat nat

record datetime =
  year :: nat
  month :: nat
  day :: nat
  hour :: nat
  minute :: nat
  second :: nat

text \<open>
  The values that reach \<^verbatim>\<open>create_filters\<close> and the filters: \<^verbatim>\<open>None\<close>, a
  \<^verbatim>\<open>bool\<close>, an \<^verbatim>\<open>int\<close>, a \<^verbatim>\<open>float\<close> or a \<^verbatim>\<open>date\<close>.
\<close>

datatype pyval = PNone | PBool bool | PInt int | PFloat pyfloat | PDate date

datatype error = UnsupportedCriterionError | TypeError | ValueError

text \<open>\<^verbatim>\<open>datetime.date()\<close>: the calendar date of a timestamp.\<close>

definition date_of :: "datetime \<Rightarrow> date" where
  "date_of t = Date (year t) (month t) (day t)"

text \<open>
  The position of a float on the extended number line; NaN has none. The first component
  orders \<^verbatim>\<open>-inf\<close>, the finite values and \<^verbatim>\<open>inf\<close>.
\<close>

fun float_key :: "pyfloat \<Rightarrow> (nat \<times> rat) option" where
  "float_key NaN = None"
| "float_key NegInf = Some (0, 0)"
| "float_key (Finite q) = Some (1, q)"
| "float_key NegZero = Some (1, 0)"
| "float_key PosInf = Some (2, 0)"

definition float_eq :: "pyfloat \<Rightarrow> pyfloat \<Rightarrow> bool" where
  "float_eq a b =
     (case (float_key a, float_key b) of
        (Some x, Some y) \<Rightarrow> x = y
      | _ \<Rightarrow> False)"

definition float_le :: "pyfloat \<Rightarrow> pyfloat \<Rightarrow> bool" where
  "float_le a b =
     (case (float_key a, float_key b) of
        (Some (i, x), Some (j, y)) \<Rightarrow> i < j \<or> (i = j \<and> x \<le> y)
      | _ \<Rightarrow> False)"

definition float_ge :: "pyfloat \<Rightarrow> pyfloat \<Rightarrow> bool" where
  "float_ge a b =
     (case (float_key a, float_key b) of
        (Some (i, x), Some (j, y)) \<Rightarrow> j < i \<or> (i = j \<and> y \<le> x)
      | _ \<Rightarrow> False)"

text \<open>
  The numeric value of a \<^verbatim>\<open>bool\<close>, \<^verbatim>\<open>int\<close> or \<^verbatim>\<open>float\<close>. Python compares an
  \<^verbatim>\<open>int\<close> with a \<^verbatim>\<open>float\<close> by exact value, and \<^verbatim>\<open>bool\<close> is a subclass of
  \<^verbatim>\<open>int\<close>.
\<close>

fun numeric :: "pyval \<Rightarrow> pyfloat option" where
  "numeric (PBool b) = Some (Finite (if b then 1 else 0))"
| "numeric (PInt i) = Some (Finite (of_int i))"
| "numeric (PFloat f) = Some f"
| "numeric PNone = None"
| "numeric (PDate d) = None"

fun date_le :: "date \<Rightarrow> date \<Rightarrow> bool" where
  "date_le (Date y1 m1 d1) (Date y2 m2 d2) =
     (y1 < y2 \<or> (y1 = y2 \<and> (m1 < m2 \<or> (m1 = m2 \<and> d1 \<le> d2))))"

text \<open>\<^verbatim>\<open>a == b\<close>: never raises on these types; values of unrelated types are unequal.\<close>

fun py_eq :: "pyval \<Rightarrow> pyval \<Rightarrow> bool" where
  "py_eq PNone PNone = True"
| "py_eq (PDate a) (PDate b) = (a = b)"
| "py_eq a b =
     (case (numeric a, numeric b) of
        (Some x, Some y) \<Rightarrow> float_eq x y
      | _ \<Rightarrow> False)"

text \<open>\<^verbatim>\<open>a >= b\<close> and \<^verbatim>\<open>a <= b\<close>: a \<^verbatim>\<open>TypeError\<close> between unrelated types.\<close>

fun py_ge :: "pyval \<Rightarrow> pyval \<Rightarrow> error + bool" where
  "py_ge (PDate a) (PDate b) = Inr (date_le b a)"
| "py_ge a b =
     (case (numeric a, numeric b) of
        (Some x, Some y) \<Rightarrow> Inr (float_ge x y)
      | _ \<Rightarrow> Inl TypeError)"

fun py_le :: "pyval \<Rightarrow> pyval \<Rightarrow> error + bool" where
  "py_le (PDate a) (PDate b) = Inr (date_le a b)"
| "py_le a b =
     (case (numeric a, numeric b) of
        (Some x, Some y) \<Rightarrow> Inr (float_le x y)
      | _ \<Rightarrow> Inl TypeError)"

text \<open>
  Truthiness, as \<^verbatim>\<open>if x:\<close> tests it: \<^verbatim>\<open>None\<close>, \<^verbatim>\<open>False\<close> and the zeros are
  falsy; NaN, the infinities and every date are truthy.
\<close>

fun truthy :: "pyval \<Rightarrow> bool" where
  "truthy PNone = False"
| "truthy (PBool b) = b"
| "truthy (PInt i) = (i \<noteq> 0)"
| "truthy (PFloat (Finite q)) = (q \<noteq> 0)"
| "truthy (PFloat NegZero) = False"
| "truthy (PFloat PosInf) = True"
| "truthy (PFloat NegInf) = True"
| "truthy (PFloat NaN) = True"
| "truthy (PDate d) = True"

section \<open>Records: close approaches and near-Earth objects\<close>

record NearEarthObject =
  designation :: string
  name :: "string option"
  diameter :: pyfloat
  hazardous :: bool

record CloseApproach =
  time :: datetime
  distance :: pyfloat
  velocity :: pyfloat
  designation :: string
  neo :: NearEarthObject

section \<open>Attribute filters\<close>

text \<open>The comparators of the \<^verbatim>\<open>operator\<close> module that the filters are built with.\<close>

datatype comparator = operator_eq | operator_ge | operator_le

fun apply_op :: "comparator \<Rightarrow> pyval \<Rightarrow> pyval \<Rightarrow> error + bool" where
  "apply_op operator_eq a b = Inr (py_eq a b)"
| "apply_op operator_ge a b = py_ge a b"
| "apply_op operator_le a b = py_le a b"

text \<open>
  The class of a filter object selects its \<^verbatim>\<open>get\<close> classmethod; the instance holds
  \<^verbatim>\<open>op\<close> and \<^verbatim>\<open>value\<close>.
\<close>

datatype filter_class =
    AttributeFilter_class
  | HazardousFilter_class
  | DateFilter_class
  | StartDateFilter_class
  | EndDateFilter_class
  | MinDistanceFilter_class
  | MaxDistanceFilter_class
  | MinVelocityFilter_class
  | MaxVelocityFilter_class
  | MinDiameterFilter_class
  | MaxDiameterFilter_class

record attribute_filter =
  cls :: filter_class
  op :: comparator
  val :: pyval

text \<open>\<^verbatim>\<open>AttributeFilter.__init__\<close> and the constructors of the subclasses.\<close>

definition AttributeFilter :: "comparator \<Rightarrow> pyval \<Rightarrow> attribute_filter" where
  "AttributeFilter c v = \<lparr>cls = AttributeFilter_class, op = c, val = v\<rparr>"

definition HazardousFilter :: "pyval \<Rightarrow> attribute_filter" where
  "HazardousFilter h = (AttributeFilter operator_eq h)\<lparr>cls := HazardousFilter_class\<rparr>"

definition DateFilter :: "pyval \<Rightarrow> attribute_filter" where
  "DateFilter d = (AttributeFilter operator_eq d)\<lparr>cls := DateFilter_class\<rparr>"

definition StartDateFilter :: "pyval \<Rightarrow> attribute_filter" where
  "StartDateFilter d = (AttributeFilter operator_ge d)\<lparr>cls := StartDateFilter_class\<rparr>"

definition EndDateFilter :: "pyval \<Rightarrow> attribute_filter" where
  "EndDateFilter d = (AttributeFilter operator_le d)\<lparr>cls := EndDateFilter_class\<rparr>"

definition MinDistanceFilter :: "pyval \<Rightarrow> attribute_filter" where
  "MinDistanceFilter v = (AttributeFilter operator_ge v)\<lparr>cls := MinDistanceFilter_class\<rparr>"

definition MaxDistanceFilter :: "pyval \<Rightarrow> attribute_filter" where
  "MaxDistanceFilter v = (AttributeFilter operator_le v)\<lparr>cls := MaxDistanceFilter_class\<rparr>"

definition MinVelocityFilter :: "pyval \<Rightarrow> attribute_filter" where
  "MinVelocityFilter v = (AttributeFilter operator_ge v)\<lparr>cls := MinVelocityFilter_class\<rparr>"

definition MaxVelocityFilter :: "pyval \<Rightarrow> attribute_filter" where
  "MaxVelocityFilter v = (AttributeFilter operator_le v)\<lparr>cls := MaxVelocityFilter_class\<rparr>"

definition MinDiameterFilter :: "pyval \<Rightarrow> attribute_filter" where
  "MinDiameterFilter v = (AttributeFilter operator_ge v)\<lparr>cls := MinDiameterFilter_class\<rparr>"

definition MaxDiameterFilter :: "pyval \<Rightarrow> attribute_filter" where
  "MaxDiameterFilter v = (AttributeFilter operator_le v)\<lparr>cls := MaxDiameterFilter_class\<rparr>"

text \<open>
  The classmethod \<^verbatim>\<open>get\<close>, dispatched on the class: the base class raises
  \<^verbatim>\<open>UnsupportedCriterionError\<close>, each subclass reads its attribute.
\<close>

fun get :: "filter_class \<Rightarrow> CloseApproach \<Rightarrow> error + pyval" where
  "get AttributeFilter_class approach = Inl UnsupportedCriterionError"
| "get HazardousFilter_class approach = Inr (PBool (hazardous (neo approach)))"
| "get DateFilter_class approach = Inr (PDate (date_of (time approach)))"
| "get StartDateFilter_class approach = Inr (PDate (date_of (time approach)))"
| "get EndDateFilter_class approach = Inr (PDate (date_of (time approach)))"
| "get MinDistanceFilter_class approach = Inr (PFloat (distance approach))"
| "get MaxDistanceFilter_class approach = Inr (PFloat (distance approach))"
| "get MinVelocityFilter_class approach = Inr (PFloat (velocity approach))"
| "get MaxVelocityFilter_class approach = Inr (PFloat (velocity approach))"
| "get MinDiameterFilter_class approach = Inr (PFloat (diameter (neo approach)))"
| "get MaxDiameterFilter_class approach = Inr (PFloat (diameter (neo approach)))"

text \<open>
  \<^verbatim>\<open>AttributeFilter.__call__\<close>: \<^verbatim>\<open>self.op(self.get(approach), self.value)\<close>. An
  exception raised by \<^verbatim>\<open>get\<close> leaves the call before the comparator runs.
\<close>

definition call :: "attribute_filter \<Rightarrow> CloseApproach \<Rightarrow> error + bool" where
  "call self approach =
     (case get (cls self) approach of
        Inl e \<Rightarrow> Inl e
      | Inr actual \<Rightarrow> apply_op (op self) actual (val self))"

section \<open>Building the filter collection\<close>

text \<open>
  \<^verbatim>\<open>create_filters\<close>: the list \<^verbatim>\<open>filters\<close> starts empty and each \<^verbatim>\<open>if\<close> appends
  to it. The first nine options are tested for truthiness, \<^verbatim>\<open>hazardous\<close> with
  \<^verbatim>\<open>is not None\<close>.
\<close>

definition create_filters ::
  "pyval \<Rightarrow> pyval \<Rightarrow> pyval \<Rightarrow> pyval \<Rightarrow> pyval \<Rightarrow> pyval \<Rightarrow> pyval \<Rightarrow> pyval \<Rightarrow> pyval \<Rightarrow> pyval
     \<Rightarrow> attribute_filter list" where
  "create_filters =
     (\<lambda>date start_date end_date distance_min distance_max
       velocity_min velocity_max diameter_min diameter_max hazardous.
      let filters = [];
          filters = (if truthy date then filters @ [DateFilter date] else filters);
          filters = (if truthy start_date then filters @ [StartDateFilter start_date] else filters);
          filters = (if truthy end_date then filters @ [EndDateFilter end_date] else filters);
          filters = (if truthy distance_min then filters @ [MinDistanceFilter distance_min] else filters);
          filters = (if truthy distance_max then filters @ [MaxDistanceFilter distance_max] else filters);
          filters = (if truthy velocity_min then filters @ [MinVelocityFilter velocity_min] else filters);
          filters = (if truthy velocity_max then filters @ [MaxVelocityFilter velocity_max] else filters);
          filters = (if truthy diameter_min then filters @ [MinDiameterFilter diameter_min] else filters);
          filters = (if truthy diameter_max then filters @ [MaxDiameterFilter diameter_max] else filters);
          filters = (if hazardous \<noteq> PNone then filters @ [HazardousFilter hazardous] else filters)
      in filters)"

text \<open>
  Modelled from the spec: the query step that applies a filter collection to the record
  stream is not among the source files. A record matches only if every filter in the
  collection returns true for it; a filter that raises aborts the query.
\<close>

fun matches :: "attribute_filter list \<Rightarrow> CloseApproach \<Rightarrow> error + bool" where
  "matches [] approach = Inr True"
| "matches (f # fs) approach =
     (case call f approach of
        Inl e \<Rightarrow> Inl e
      | Inr b \<Rightarrow> (if b then matches fs approach else Inr False))"

fun query :: "attribute_filter list \<Rightarrow> CloseApproach list \<Rightarrow> error + CloseApproach list" where
  "query filters [] = Inr []"
| "query filters (approach # rest) =
     (case matches filters approach of
        Inl e \<Rightarrow> Inl e
      | Inr b \<Rightarrow>
          (case query filters rest of
             Inl e \<Rightarrow> Inl e
           | Inr found \<Rightarrow> Inr (if b then approach # found else found)))"

section \<open>Limiting a stream\<close>

text \<open>
  An iterator is what its successive \<^verbatim>\<open>next\<close> calls return: an item and the rest, or
  \<^verbatim>\<open>StopIteration\<close>. It may go on forever.
\<close>

codatatype 'a iterator = StopIteration | Yield (current: 'a) (later: "'a iterator")

text \<open>
  The objects \<^verbatim>\<open>limit\<close> works with: a source iterator, or an \<^verbatim>\<open>itertools.islice\<close>
  object holding the iterator it reads from and the number of items it may still yield.
\<close>

datatype 'a pyiter = Source "'a iterator" | islice_object "'a pyiter" nat



text \<open>
  \<^verbatim>\<open>sys.maxsize\<close> of a 64-bit build, and the call \<^verbatim>\<open>islice(iterator, n)\<close>: the
  stop argument must be an integer from 0 to \<^verbatim>\<open>sys.maxsize\<close>, any other raises
  \<^verbatim>\<open>ValueError\<close>.
\<close>

definition sys_maxsize :: int where
  "sys_maxsize = 2 ^ 63 - 1"

definition islice :: "'a pyiter \<Rightarrow> int \<Rightarrow> error + 'a pyiter" where
  "islice iterator n =
     (if 0 \<le> n \<and> n \<le> sys_maxsize then Inr (islice_object iterator (nat n))
      else Inl ValueError)"

text \<open>
  \<^verbatim>\<open>limit\<close>: \<^verbatim>\<open>n\<close> is \<^verbatim>\<open>None\<close> or an \<^verbatim>\<open>int\<close>. The result is the object
  returned, or the error that \<^verbatim>\<open>islice\<close> raises.
\<close>

definition limit :: "'a pyiter \<Rightarrow> int option \<Rightarrow> error + 'a pyiter" where
  "limit iterator n =
     (case n of
        None \<Rightarrow> Inr iterator
      | Some k \<Rightarrow> (if k \<noteq> 0 \<and> k > 0 then islice iterator k else Inr iterator))"

text \<open>The first \<open>k\<close> items of a source, and the source after \<open>k\<close> calls of \<^verbatim>\<open>next\<close>.\<close>

fun first_items :: "nat \<Rightarrow> 'a iterator \<Rightarrow> 'a list" where
  "first_items 0 it = []"
| "first_items (Suc k) it =
     (case it of StopIteration \<Rightarrow> [] | Yield x rest \<Rightarrow> x # first_items k rest)"


text \<open>A list as an iterator, and the unbounded iterator \<^verbatim>\<open>itertools.count(i)\<close>.\<close>

primrec iter :: "'a list \<Rightarrow> 'a iterator" where
  "iter [] = StopIteration"
| "iter (x # xs) = Yield x (iter xs)"


section \<open>Writing results\<close>

text \<open>The field values that \<^verbatim>\<open>write_to_csv\<close> hands to the CSV writer.\<close>

datatype field = FStr string | FFloat pyfloat | FBool bool

definition CR :: char where "CR = CHR 0x0D"
definition LF :: char where "LF = CHR 0x0A"

text \<open>
  The writer of the \<^verbatim>\<open>csv\<close> module in its default dialect: a field that is not a string
  is written as \<^verbatim>\<open>str\<close> gives it (\<open>frepr\<close> stands for \<^verbatim>\<open>str\<close> on floats); a field holding
  the delimiter, the quote character or a line break is quoted, with quote characters
  doubled; fields are joined by commas and the row ends with CR LF.
\<close>

fun field_str :: "(pyfloat \<Rightarrow> string) \<Rightarrow> field \<Rightarrow> string" where
  "field_str frepr (FStr s) = s"
| "field_str frepr (FFloat x) = frepr x"
| "field_str frepr (FBool b) = (if b then ''True'' else ''False'')"

definition special :: "char \<Rightarrow> bool" where
  "special c = (c = CHR '','' \<or> c = CHR 0x22 \<or> c = CR \<or> c = LF)"

definition quote :: "string \<Rightarrow> string" where
  "quote s =
     (if list_ex special s
      then [CHR 0x22] @ concat (map (\<lambda>c. if c = CHR 0x22 then [c, c] else [c]) s) @ [CHR 0x22]
      else s)"

fun join :: "string \<Rightarrow> string list \<Rightarrow> string" where
  "join sep [] = []"
| "join sep [s] = s"
| "join sep (s # t # ts) = s @ sep @ join sep (t # ts)"

definition writerow :: "(pyfloat \<Rightarrow> string) \<Rightarrow> field list \<Rightarrow> string" where
  "writerow frepr row =
     (let cells = map (field_str frepr) row
      in (if cells = [[]] then [CHR 0x22, CHR 0x22] else join '','' (map quote cells))
         @ [CR, LF])"

definition writerows :: "(pyfloat \<Rightarrow> string) \<Rightarrow> field list list \<Rightarrow> string" where
  "writerows frepr rows = concat (map (writerow frepr) rows)"

definition fieldnames :: "string list" where
  "fieldnames = [''datetime_utc'', ''distance_au'', ''velocity_km_s'', ''designation'',
                 ''name'', ''diameter_km'', ''potentially_hazardous'']"

text \<open>
  \<^verbatim>\<open>write_to_csv\<close>: the text written to the file. \<^verbatim>\<open>datetime_to_str\<close> comes from the
  \<^verbatim>\<open>helpers\<close> module and is a parameter here, as is the text of a float.
\<close>

definition write_to_csv ::
  "(datetime \<Rightarrow> string) \<Rightarrow> (pyfloat \<Rightarrow> string) \<Rightarrow> CloseApproach list \<Rightarrow> string" where
  "write_to_csv datetime_to_str frepr results =
     writerow frepr (map FStr fieldnames)
     @ writerows frepr
         (map (\<lambda>result.
                 [FStr (datetime_to_str (time result)),
                  FFloat (distance result),
                  FFloat (velocity result),
                  FStr (CloseApproach.designation result),
                  FStr (case name (neo result) of
                          None \<Rightarrow> []
                        | Some s \<Rightarrow> (if s \<noteq> [] then s else [])),
                  FFloat (diameter (neo result)),
                  FBool (hazardous (neo result))])
              results)"

text \<open>
  The Python values handed to \<^verbatim>\<open>json.dump\<close>: a \<^verbatim>\<open>dict\<close> keeps its keys in insertion
  order.
\<close>

datatype json = JStr string | JFloat pyfloat | JBool bool
  | JList "json list" | JDict "(string \<times> json) list"

definition result_to_dict :: "(datetime \<Rightarrow> string) \<Rightarrow> CloseApproach \<Rightarrow> json" where
  "result_to_dict datetime_to_str result =
     (let neo = neo result
      in JDict
           [(''datetime_utc'', JStr (datetime_to_str (time result))),
            (''distance_au'', JFloat (distance result)),
            (''velocity_km_s'', JFloat (velocity result)),
            (''neo'', JDict
               [(''designation'', JStr (NearEarthObject.designation neo)),
                (''name'', JStr (case name neo of
                                   None \<Rightarrow> []
                                 | Some s \<Rightarrow> (if s \<noteq> [] then s else []))),
                (''diameter_km'', JFloat (diameter neo)),
                (''potentially_hazardous'', JBool (hazardous neo))])])"

text \<open>\<^verbatim>\<open>write_to_json\<close>: the document that \<^verbatim>\<open>json.dump\<close> writes to the file.\<close>

definition write_to_json :: "(datetime \<Rightarrow> string) \<Rightarrow> CloseApproach list \<Rightarrow> json" where
  "write_to_json datetime_to_str results = JList (map (result_to_dict datetime_to_str) results)"

text \<open>The keys of a \<^verbatim>\<open>dict\<close> in order, and \<^verbatim>\<open>d.get(k)\<close>.\<close>

fun keys :: "json \<Rightarrow> string list" where
  "keys (JDict kvs) = map fst kvs"
| "keys other = []"

fun item :: "json \<Rightarrow> string \<Rightarrow> json option" where
  "item (JDict kvs) k = map_of kvs k"
| "item other k = None"

section \<open>The float model\<close>

lemma float_ge_Finite: "float_ge (Finite x) (Finite y) = (y \<le> x)"
  by (simp add: float_ge_def)

lemma float_le_Finite: "float_le (Finite x) (Finite y) = (x \<le> y)"
  by (simp add: float_le_def)

lemma float_eq_Finite: "float_eq (Finite x) (Finite y) = (x = y)"
  by (simp add: float_eq_def)

lemma float_NaN_unordered:
  "\<not> float_ge NaN z" "\<not> float_ge z NaN" "\<not> float_le NaN z" "\<not> float_le z NaN"
  "\<not> float_eq NaN z" "\<not> float_eq z NaN"
  by (simp_all add: float_ge_def float_le_def float_eq_def split: option.splits)

lemma float_ge_le: "float_ge a b = float_le b a"
  by (auto simp: float_ge_def float_le_def split: option.splits)

section \<open>Evaluating a filter\<close>

lemmas filter_defs =
  call_def AttributeFilter_def HazardousFilter_def DateFilter_def StartDateFilter_def
  EndDateFilter_def MinDistanceFilter_def MaxDistanceFilter_def MinVelocityFilter_def
  MaxVelocityFilter_def MinDiameterFilter_def MaxDiameterFilter_def

text \<open>
  On a reference value of the attribute's own type every variant returns a boolean: the
  hazard flag is compared with a \<^verbatim>\<open>bool\<close>, the calendar date with a \<^verbatim>\<open>date\<close>, and
  distance, velocity and diameter with a \<^verbatim>\<open>float\<close>.
\<close>

lemma call_on_typed_reference:
  "call (HazardousFilter (PBool b)) a = Inr (hazardous (neo a) = b)"
  "call (DateFilter (PDate d)) a = Inr (date_of (time a) = d)"
  "call (StartDateFilter (PDate d)) a = Inr (date_le d (date_of (time a)))"
  "call (EndDateFilter (PDate d)) a = Inr (date_le (date_of (time a)) d)"
  "call (MinDistanceFilter (PFloat x)) a = Inr (float_ge (distance a) x)"
  "call (MaxDistanceFilter (PFloat x)) a = Inr (float_le (distance a) x)"
  "call (MinVelocityFilter (PFloat x)) a = Inr (float_ge (velocity a) x)"
  "call (MaxVelocityFilter (PFloat x)) a = Inr (float_le (velocity a) x)"
  "call (MinDiameterFilter (PFloat x)) a = Inr (float_ge (diameter (neo a)) x)"
  "call (MaxDiameterFilter (PFloat x)) a = Inr (float_le (diameter (neo a)) x)"
  by (simp_all add: filter_defs float_eq_def)

text \<open>
  C1. Every filter variant, built with reference value \<open>r\<close>, evaluates on a record to the
  variant's comparator applied to the extracted attribute and \<open>r\<close>: the hazard flag with
  equality; the calendar date of the timestamp with equality, \<open>\<ge>\<close> and \<open>\<le>\<close>; the distance,
  the velocity and the diameter of the object with \<open>\<ge>\<close> and \<open>\<le>\<close>.
\<close>

theorem call_applies_comparator:
  "call (HazardousFilter r) a = apply_op operator_eq (PBool (hazardous (neo a))) r
   \<and> call (DateFilter r) a = apply_op operator_eq (PDate (date_of (time a))) r
   \<and> call (StartDateFilter r) a = apply_op operator_ge (PDate (date_of (time a))) r
   \<and> call (EndDateFilter r) a = apply_op operator_le (PDate (date_of (time a))) r
   \<and> call (MinDistanceFilter r) a = apply_op operator_ge (PFloat (distance a)) r
   \<and> call (MaxDistanceFilter r) a = apply_op operator_le (PFloat (distance a)) r
   \<and> call (MinVelocityFilter r) a = apply_op operator_ge (PFloat (velocity a)) r
   \<and> call (MaxVelocityFilter r) a = apply_op operator_le (PFloat (velocity a)) r
   \<and> call (MinDiameterFilter r) a = apply_op operator_ge (PFloat (diameter (neo a))) r
   \<and> call (MaxDiameterFilter r) a = apply_op operator_le (PFloat (diameter (neo a))) r"
  by (simp add: filter_defs)

text \<open>
  C6. A filter of the base class, whatever its comparator and reference value, raises
  \<^verbatim>\<open>UnsupportedCriterionError\<close> on every record: the call returns the error and no
  boolean.
\<close>

theorem base_filter_unsupported:
  "call (AttributeFilter c v) a = Inl UnsupportedCriterionError"
  by (simp add: call_def AttributeFilter_def)

section \<open>The filter collection\<close>

lemma create_filters_append:
  "create_filters d sd ed dmin dmax vmin vmax amin amax hz =
     (if truthy d then [DateFilter d] else [])
     @ (if truthy sd then [StartDateFilter sd] else [])
     @ (if truthy ed then [EndDateFilter ed] else [])
     @ (if truthy dmin then [MinDistanceFilter dmin] else [])
     @ (if truthy dmax then [MaxDistanceFilter dmax] else [])
     @ (if truthy vmin then [MinVelocityFilter vmin] else [])
     @ (if truthy vmax then [MaxVelocityFilter vmax] else [])
     @ (if truthy amin then [MinDiameterFilter amin] else [])
     @ (if truthy amax then [MaxDiameterFilter amax] else [])
     @ (if hz \<noteq> PNone then [HazardousFilter hz] else [])"
  by (simp add: create_filters_def Let_def)

text \<open>
  C2, as amended. For every configuration of the ten options, \<^verbatim>\<open>create_filters\<close> returns,
  in the order date, start_date, end_date, distance_min, distance_max, velocity_min,
  velocity_max, diameter_min, diameter_max, hazardous, exactly one filter of the
  corresponding variant, built with the supplied value, for each of the first nine options
  whose value is truthy and for \<^verbatim>\<open>hazardous\<close> whenever it is not \<^verbatim>\<open>None\<close>, and no filter
  for any other option.
\<close>

theorem create_filters_truthy_options:
  "create_filters d sd ed dmin dmax vmin vmax amin amax hz =
     (if truthy d then [DateFilter d] else [])
     @ (if truthy sd then [StartDateFilter sd] else [])
     @ (if truthy ed then [EndDateFilter ed] else [])
     @ (if truthy dmin then [MinDistanceFilter dmin] else [])
     @ (if truthy dmax then [MaxDistanceFilter dmax] else [])
     @ (if truthy vmin then [MinVelocityFilter vmin] else [])
     @ (if truthy vmax then [MaxVelocityFilter vmax] else [])
     @ (if truthy amin then [MinDiameterFilter amin] else [])
     @ (if truthy amax then [MaxDiameterFilter amax] else [])
     @ (if hz \<noteq> PNone then [HazardousFilter hz] else [])"
  by (rule create_filters_append)

text \<open>
  C2, as stated, fails: with \<^verbatim>\<open>distance_min=0\<close> the option is present (it is not
  \<^verbatim>\<open>None\<close>), yet the collection holds no minimum-distance filter.
\<close>

theorem create_filters_present_zero_counterexample:
  "\<not> (PInt 0 \<noteq> PNone \<longrightarrow>
        MinDistanceFilter (PInt 0)
          \<in> set (create_filters PNone PNone PNone (PInt 0) PNone PNone PNone PNone PNone PNone))"
  by (simp add: create_filters_append)

text \<open>
  C4. With \<^verbatim>\<open>hazardous=False\<close> the collection holds a hazard filter, which a record
  satisfies exactly when the hazard flag of its object is \<^verbatim>\<open>False\<close>; with
  \<^verbatim>\<open>hazardous\<close> unset it holds no hazard filter, whatever the other options are. The
  falsy value \<^verbatim>\<open>False\<close> is kept apart from \<^verbatim>\<open>None\<close>.
\<close>

theorem hazardous_is_tri_state:
  "create_filters PNone PNone PNone PNone PNone PNone PNone PNone PNone (PBool False)
     = [HazardousFilter (PBool False)]
   \<and> call (HazardousFilter (PBool False)) a = Inr (hazardous (neo a) = False)
   \<and> create_filters PNone PNone PNone PNone PNone PNone PNone PNone PNone PNone = []
   \<and> HazardousFilter (PBool False)
        \<in> set (create_filters d sd ed dmin dmax vmin vmax amin amax (PBool False))
   \<and> \<not> list_ex (\<lambda>f. cls f = HazardousFilter_class)
          (create_filters d sd ed dmin dmax vmin vmax amin amax PNone)"
  by (simp add: create_filters_append filter_defs float_eq_def)

text \<open>
  C5. For each of the six numeric options, the value 0 (the \<^verbatim>\<open>int\<close> or the \<^verbatim>\<open>float\<close>)
  gives the same collection as leaving the option unset, whatever the other options are;
  \<^verbatim>\<open>create_filters(distance_min=0)\<close> is the empty collection.
\<close>

theorem zero_is_unset:
  "create_filters d sd ed (PInt 0) dmax vmin vmax amin amax hz
     = create_filters d sd ed PNone dmax vmin vmax amin amax hz
   \<and> create_filters d sd ed dmin (PInt 0) vmin vmax amin amax hz
     = create_filters d sd ed dmin PNone vmin vmax amin amax hz
   \<and> create_filters d sd ed dmin dmax (PInt 0) vmax amin amax hz
     = create_filters d sd ed dmin dmax PNone vmax amin amax hz
   \<and> create_filters d sd ed dmin dmax vmin (PInt 0) amin amax hz
     = create_filters d sd ed dmin dmax vmin PNone amin amax hz
   \<and> create_filters d sd ed dmin dmax vmin vmax (PInt 0) amax hz
     = create_filters d sd ed dmin dmax vmin vmax PNone amax hz
   \<and> create_filters d sd ed dmin dmax vmin vmax amin (PInt 0) hz
     = create_filters d sd ed dmin dmax vmin vmax amin PNone hz
   \<and> create_filters d sd ed (PFloat (Finite 0)) dmax vmin vmax amin amax hz
     = create_filters d sd ed PNone dmax vmin vmax amin amax hz
   \<and> create_filters d sd ed dmin (PFloat (Finite 0)) vmin vmax amin amax hz
     = create_filters d sd ed dmin PNone vmin vmax amin amax hz
   \<and> create_filters d sd ed dmin dmax (PFloat (Finite 0)) vmax amin amax hz
     = create_filters d sd ed dmin dmax PNone vmax amin amax hz
   \<and> create_filters d sd ed dmin dmax vmin (PFloat (Finite 0)) amin amax hz
     = create_filters d sd ed dmin dmax vmin PNone amin amax hz
   \<and> create_filters d sd ed dmin dmax vmin vmax (PFloat (Finite 0)) amax hz
     = create_filters d sd ed dmin dmax vmin vmax PNone amax hz
   \<and> create_filters d sd ed dmin dmax vmin vmax amin (PFloat (Finite 0)) hz
     = create_filters d sd ed dmin dmax vmin vmax amin PNone hz
   \<and> create_filters PNone PNone PNone (PInt 0) PNone PNone PNone PNone PNone PNone = []"
  by (simp add: create_filters_append)

lemma query_no_filters: "query [] rs = Inr rs"
  by (induction rs) simp_all

text \<open>
  C7. With every option unset the collection is empty; every record matches the empty
  collection, and the query with it returns the record stream unchanged.
\<close>

theorem empty_options_identity:
  "create_filters PNone PNone PNone PNone PNone PNone PNone PNone PNone PNone = []
   \<and> matches (create_filters PNone PNone PNone PNone PNone PNone PNone PNone PNone PNone) a
       = Inr True
   \<and> query (create_filters PNone PNone PNone PNone PNone PNone PNone PNone PNone PNone) rs
       = Inr rs"
  by (simp add: create_filters_append query_no_filters)

section \<open>The limiter\<close>




lemma length_first_items: "length (first_items k S) \<le> k"
  by (induction k arbitrary: S) (auto split: iterator.splits)

lemma limit_too_large: "sys_maxsize < n \<Longrightarrow> limit it (Some n) = Inl ValueError"
  by (simp add: limit_def islice_def sys_maxsize_def)




text \<open>
  C10. For a negative \<open>n\<close>, \<^verbatim>\<open>limit(S, n)\<close> is the input object itself: no truncation and
  no error.
\<close>

theorem limit_negative:
  "n < 0 \<Longrightarrow> limit S (Some n) = Inr S"
  by (simp add: limit_def)

theorem limit_negative_witness:
  "(-2::int) < 0
   \<and> limit (Source (iter [1::int, 2, 3])) (Some (-2)) = Inr (Source (iter [1, 2, 3]))"
  using limit_negative[of "-2" "Source (iter [1::int, 2, 3])"] by simp

section \<open>The writers\<close>

lemma quote_fieldnames: "map quote fieldnames = fieldnames"
  by (simp add: fieldnames_def quote_def special_def CR_def LF_def)

lemma quote_bool: "quote ''True'' = ''True''" "quote ''False'' = ''False''"
  by (simp_all add: quote_def special_def CR_def LF_def)

lemma header_row:
  "writerow frepr (map FStr fieldnames)
     = ''datetime_utc,distance_au,velocity_km_s,designation,name,diameter_km,potentially_hazardous''
       @ [CR, LF]"
proof -
  have "writerow frepr (map FStr fieldnames) = join '','' (map quote fieldnames) @ [CR, LF]"
    by (simp add: writerow_def fieldnames_def)
  then show ?thesis
    by (simp add: quote_fieldnames) (simp add: fieldnames_def)
qed

lemma name_or_empty:
  "(case n of None \<Rightarrow> [] | Some s \<Rightarrow> (if s \<noteq> [] then s else []))
     = (case n of None \<Rightarrow> [] | Some s \<Rightarrow> s)"
  by (cases n) simp_all

lemma data_row:
  "writerow frepr [FStr a, FFloat b, FFloat c, FStr d, FStr e, FFloat f, FBool g]
     = quote a @ '','' @ quote (frepr b) @ '','' @ quote (frepr c) @ '','' @ quote d @ '',''
       @ quote e @ '','' @ quote (frepr f) @ '','' @ (if g then ''True'' else ''False'')
       @ [CR, LF]"
  by (simp add: writerow_def quote_bool)

lemma write_to_csv_text:
  "write_to_csv dts frepr results =
     ''datetime_utc,distance_au,velocity_km_s,designation,name,diameter_km,potentially_hazardous''
     @ [CR, LF]
     @ concat (map (\<lambda>r. quote (dts (time r)) @ '','' @ quote (frepr (distance r)) @ '',''
          @ quote (frepr (velocity r)) @ '','' @ quote (CloseApproach.designation r) @ '',''
          @ quote (case name (neo r) of None \<Rightarrow> [] | Some s \<Rightarrow> s) @ '',''
          @ quote (frepr (diameter (neo r))) @ '',''
          @ (if hazardous (neo r) then ''True'' else ''False'') @ [CR, LF]) results)"
  unfolding write_to_csv_def writerows_def header_row map_map comp_def data_row name_or_empty
  by simp

text \<open>
  C8. The text written by \<^verbatim>\<open>write_to_csv\<close> is the header row with the seven column names,
  followed by one row per record in stream order: the timestamp as \<^verbatim>\<open>datetime_to_str\<close>
  gives it, distance, velocity, the designation of the record, the name of the object (empty
  when it is absent), the diameter, and the hazard flag as \<^verbatim>\<open>True\<close> or \<^verbatim>\<open>False\<close>; each
  row ends with CR LF. For the single record of the scenario the row is
  \<^verbatim>\<open>2020-01-01 00:00,0.3,5.0,433,,0.2,True\<close>.
\<close>

theorem write_to_csv_rows:
  "write_to_csv dts frepr results =
     ''datetime_utc,distance_au,velocity_km_s,designation,name,diameter_km,potentially_hazardous''
     @ [CR, LF]
     @ concat (map (\<lambda>r. quote (dts (time r)) @ '','' @ quote (frepr (distance r)) @ '',''
          @ quote (frepr (velocity r)) @ '','' @ quote (CloseApproach.designation r) @ '',''
          @ quote (case name (neo r) of None \<Rightarrow> [] | Some s \<Rightarrow> s) @ '',''
          @ quote (frepr (diameter (neo r))) @ '',''
          @ (if hazardous (neo r) then ''True'' else ''False'') @ [CR, LF]) results)
   \<and> (dts (time r) = ''2020-01-01 00:00'' \<and> frepr (distance r) = ''0.3''
      \<and> frepr (velocity r) = ''5.0'' \<and> CloseApproach.designation r = ''433''
      \<and> name (neo r) = None \<and> frepr (diameter (neo r)) = ''0.2'' \<and> hazardous (neo r)
      \<longrightarrow> write_to_csv dts frepr [r] =
        ''datetime_utc,distance_au,velocity_km_s,designation,name,diameter_km,potentially_hazardous''
        @ [CR, LF] @ ''2020-01-01 00:00,0.3,5.0,433,,0.2,True'' @ [CR, LF])"
proof
  show "write_to_csv dts frepr results =
     ''datetime_utc,distance_au,velocity_km_s,designation,name,diameter_km,potentially_hazardous''
     @ [CR, LF]
     @ concat (map (\<lambda>r. quote (dts (time r)) @ '','' @ quote (frepr (distance r)) @ '',''
          @ quote (frepr (velocity r)) @ '','' @ quote (CloseApproach.designation r) @ '',''
          @ quote (case name (neo r) of None \<Rightarrow> [] | Some s \<Rightarrow> s) @ '',''
          @ quote (frepr (diameter (neo r))) @ '',''
          @ (if hazardous (neo r) then ''True'' else ''False'') @ [CR, LF]) results)"
    by (rule write_to_csv_text)
next
  show "dts (time r) = ''2020-01-01 00:00'' \<and> frepr (distance r) = ''0.3''
      \<and> frepr (velocity r) = ''5.0'' \<and> CloseApproach.designation r = ''433''
      \<and> name (neo r) = None \<and> frepr (diameter (neo r)) = ''0.2'' \<and> hazardous (neo r)
      \<longrightarrow> write_to_csv dts frepr [r] =
        ''datetime_utc,distance_au,velocity_km_s,designation,name,diameter_km,potentially_hazardous''
        @ [CR, LF] @ ''2020-01-01 00:00,0.3,5.0,433,,0.2,True'' @ [CR, LF]"
    by (simp add: write_to_csv_text quote_def special_def CR_def LF_def)
qed

theorem write_to_csv_rows_witness:
  "write_to_csv (\<lambda>t. ''2020-01-01 00:00'')
     (\<lambda>x. if x = Finite (3 / 10) then ''0.3'' else if x = Finite 5 then ''5.0'' else ''0.2'')
     [\<lparr>time = \<lparr>year = 2020, month = 1, day = 1, hour = 0, minute = 0, second = 0\<rparr>,
       distance = Finite (3 / 10), velocity = Finite 5, designation = ''433'',
       neo = \<lparr>NearEarthObject.designation = ''433'', name = None,
              diameter = Finite (1 / 5), hazardous = True\<rparr>\<rparr>]
   = ''datetime_utc,distance_au,velocity_km_s,designation,name,diameter_km,potentially_hazardous''
     @ [CR, LF] @ ''2020-01-01 00:00,0.3,5.0,433,,0.2,True'' @ [CR, LF]"
  using write_to_csv_rows[of "\<lambda>t. ''2020-01-01 00:00''"
      "\<lambda>x. if x = Finite (3 / 10) then ''0.3'' else if x = Finite 5 then ''5.0'' else ''0.2''"
      "[]"
      "\<lparr>time = \<lparr>year = 2020, month = 1, day = 1, hour = 0, minute = 0, second = 0\<rparr>,
        distance = Finite (3 / 10), velocity = Finite 5, designation = ''433'',
        neo = \<lparr>NearEarthObject.designation = ''433'', name = None,
               diameter = Finite (1 / 5), hazardous = True\<rparr>\<rparr>"]
  by simp

text \<open>
  C9. The document written by \<^verbatim>\<open>write_to_json\<close> is one array with one object per record,
  in stream order. Each object has exactly the keys \<^verbatim>\<open>datetime_utc\<close>, \<^verbatim>\<open>distance_au\<close>,
  \<^verbatim>\<open>velocity_km_s\<close> and \<^verbatim>\<open>neo\<close>; \<^verbatim>\<open>neo\<close> is an object with exactly the keys
  \<^verbatim>\<open>designation\<close>, \<^verbatim>\<open>name\<close> (empty when the name is absent), \<^verbatim>\<open>diameter_km\<close> and
  \<^verbatim>\<open>potentially_hazardous\<close>; there is no \<^verbatim>\<open>designation\<close> at the top level.
\<close>

theorem write_to_json_document:
  "write_to_json dts results =
     JList (map (\<lambda>r. JDict
       [(''datetime_utc'', JStr (dts (time r))),
        (''distance_au'', JFloat (distance r)),
        (''velocity_km_s'', JFloat (velocity r)),
        (''neo'', JDict
           [(''designation'', JStr (NearEarthObject.designation (neo r))),
            (''name'', JStr (case name (neo r) of None \<Rightarrow> [] | Some s \<Rightarrow> s)),
            (''diameter_km'', JFloat (diameter (neo r))),
            (''potentially_hazardous'', JBool (hazardous (neo r)))])]) results)
   \<and> keys (result_to_dict dts r) = [''datetime_utc'', ''distance_au'', ''velocity_km_s'', ''neo'']
   \<and> item (result_to_dict dts r) ''designation'' = None
   \<and> item (result_to_dict dts r) ''neo'' = Some (JDict
           [(''designation'', JStr (NearEarthObject.designation (neo r))),
            (''name'', JStr (case name (neo r) of None \<Rightarrow> [] | Some s \<Rightarrow> s)),
            (''diameter_km'', JFloat (diameter (neo r))),
            (''potentially_hazardous'', JBool (hazardous (neo r)))])"
  by (simp add: write_to_json_def result_to_dict_def Let_def name_or_empty)

end
